theory Spec2Isabelle
  imports Main "HOL-Library.Word"
begin

section \<open>JavaScript values used by the pages\<close>

subsection \<open>Text typed by the user\<close>

text \<open>
  A JavaScript string is a sequence of 16-bit code units. Form fields whose content is
  trimmed or split are modelled that way, because \<^verbatim>\<open>String.prototype.trim\<close> removes the
  WhiteSpace and LineTerminator code points, most of which lie outside ASCII. Fields
  that are only compared with ASCII literals or handed on unchanged (status, date,
  time, messages) are HOL strings, read as code units below 256.
\<close>

type_synonym jstring = "16 word list"

definition utf16 :: "string \<Rightarrow> jstring" where
  "utf16 s = map (\<lambda>c. of_nat (of_char c)) s"

definition isWhiteSpace :: "16 word \<Rightarrow> bool" where
  "isWhiteSpace c \<longleftrightarrow>
     c \<in> set [0x9, 0xA, 0xB, 0xC, 0xD, 0x20, 0xA0, 0x1680, 0x2000, 0x2001, 0x2002, 0x2003,
              0x2004, 0x2005, 0x2006, 0x2007, 0x2008, 0x2009, 0x200A, 0x2028, 0x2029,
              0x202F, 0x205F, 0x3000, 0xFEFF]"

definition trim :: "jstring \<Rightarrow> jstring" where
  "trim s = rev (dropWhile isWhiteSpace (rev (dropWhile isWhiteSpace s)))"

text \<open>
  \<^verbatim>\<open>s.split(sep)\<close> for a one-character separator: the pieces between the separators,
  in order; a string without separator (also the empty one) gives one piece.
\<close>

fun split_on :: "'a \<Rightarrow> 'a list \<Rightarrow> 'a list list" where
  "split_on sep [] = [[]]"
| "split_on sep (c # cs) =
     (if c = sep then [] # split_on sep cs
      else (case split_on sep cs of p # ps \<Rightarrow> (c # p) # ps | [] \<Rightarrow> [[c]]))"

text \<open>\<^verbatim>\<open>pieces.join(sep)\<close>, used to say what splitting means.\<close>

fun join_on :: "'a \<Rightarrow> 'a list list \<Rightarrow> 'a list" where
  "join_on sep [] = []"
| "join_on sep [p] = p"
| "join_on sep (p # q # ps) = p @ sep # join_on sep (q # ps)"

definition comma :: "16 word" where
  "comma = 0x2C"

subsection \<open>Values shown as an error\<close>

text \<open>
  The value a rejected promise carries, and the content of an \<open>error\<close> state variable:
  a string, or an error object whose \<^verbatim>\<open>response?.data?.error\<close> is the given text
  (\<open>None\<close> when that path is undefined).
\<close>

datatype errval = ErrText string | ErrObject "string option"

fun truthy :: "errval \<Rightarrow> bool" where
  "truthy (ErrText s) = (s \<noteq> [])"
| "truthy (ErrObject r) = True"

text \<open>\<^verbatim>\<open>err || 'message'\<close>\<close>

definition or_else :: "errval \<Rightarrow> string \<Rightarrow> errval" where
  "or_else err msg = (if truthy err then err else ErrText msg)"

subsection \<open>Backend calls and other effects\<close>

record new_project =
  title :: jstring
  description :: jstring
  skills :: jstring
  location :: jstring

record project_data =
  data_title :: jstring
  data_description :: jstring
  data_skills :: "jstring list"
  data_location :: jstring

record new_skill =
  skillName :: jstring
  skill_type :: string
  proficiency :: int

text \<open>
  The service functions and \<^verbatim>\<open>api\<close> methods the pages call, with their arguments.
  \<open>'u\<close> is the type of user ids, \<open>'c\<close> the type of coordinates.
\<close>

datatype ('u, 'c) api_call =
    GetBookings
  | GetCredits
  | GetUserReputation 'u
  | GetProjects
  | CreateProject project_data
  | GetSkills
  | AddSkill new_skill
  | PutUsersLocation 'c 'c
  | GetUsersNearby jstring int 'c 'c
  | SearchUsers jstring string

datatype ('u, 'c) effect = Request "('u, 'c) api_call" | SetTimeout nat

section \<open>BookingPage\<close>

text \<open>
  A booking as the backend delivers it. The page reads the three fields below for
  filtering; every other field (id, message, isProvider, ...) lives in the extension
  part of the record, so all functions are stated over \<open>'a booking_scheme\<close>.
\<close>

record booking =
  status :: string
  date :: string
  time :: string

text \<open>
  \<^verbatim>\<open>new Date(`${b.date}T${b.time}`)\<close>: the platform's date parser is not part of the
  repository, so it is a parameter \<open>parseDate\<close>. It maps the text to a time value in
  milliseconds, or to \<open>None\<close> for an Invalid Date (time value NaN).
\<close>

type_synonym timeval = "int option"

definition bookingDateTime :: "(string \<Rightarrow> timeval) \<Rightarrow> 'a booking_scheme \<Rightarrow> timeval" where
  "bookingDateTime parseDate b = parseDate (date b @ ''T'' @ time b)"

text \<open>
  \<^verbatim>\<open>d > new Date()\<close> and \<^verbatim>\<open>d < new Date()\<close>: both sides are converted to their time
  values; a comparison with NaN is false. \<^verbatim>\<open>new Date()\<close> is always a valid time
  \<open>now\<close>.
\<close>

definition date_gt :: "timeval \<Rightarrow> int \<Rightarrow> bool" where
  "date_gt d now = (case d of None \<Rightarrow> False | Some t \<Rightarrow> t > now)"

definition date_lt :: "timeval \<Rightarrow> int \<Rightarrow> bool" where
  "date_lt d now = (case d of None \<Rightarrow> False | Some t \<Rightarrow> t < now)"

subsection \<open>filterBookings\<close>

text \<open>
  \<^verbatim>\<open>filterBookings\<close> reads the state variables \<open>filter\<close> and \<open>bookings\<close> and stores its
  result with \<^verbatim>\<open>setFilteredBookings\<close>; the function below returns the stored list.
  The clock is read once per tested booking; \<open>now\<close> is the value of all these reads.
\<close>

definition filterBookings ::
  "(string \<Rightarrow> timeval) \<Rightarrow> int \<Rightarrow> string \<Rightarrow> 'a booking_scheme list \<Rightarrow> 'a booking_scheme list" where
  "filterBookings parseDate now filter_key bookings =
     (if filter_key = ''upcoming'' then
        filter (\<lambda>b. (status b = ''confirmed'' \<or> status b = ''pending'') \<and>
                     date_gt (bookingDateTime parseDate b) now) bookings
      else if filter_key = ''past'' then
        filter (\<lambda>b. status b = ''completed'' \<or>
                     date_lt (bookingDateTime parseDate b) now) bookings
      else if filter_key = ''pending'' then
        filter (\<lambda>b. status b = ''pending'') bookings
      else if filter_key = ''confirmed'' then
        filter (\<lambda>b. status b = ''confirmed'') bookings
      else bookings)"

subsection \<open>filterCounts\<close>

text \<open>
  The object literal \<^verbatim>\<open>filterCounts\<close>, with its own properties in source order;
  \<^verbatim>\<open>filterCounts[tab.key]\<close> for one of these keys is \<open>map_of\<close>.
\<close>

definition filterCounts ::
  "(string \<Rightarrow> timeval) \<Rightarrow> int \<Rightarrow> 'a booking_scheme list \<Rightarrow> (string \<times> nat) list" where
  "filterCounts parseDate now bookings =
     [(''all'', length bookings),
      (''upcoming'', length (filter (\<lambda>b. (status b = ''confirmed'' \<or> status b = ''pending'') \<and>
                     date_gt (bookingDateTime parseDate b) now) bookings)),
      (''past'', length (filter (\<lambda>b. status b = ''completed'' \<or>
                     date_lt (bookingDateTime parseDate b) now) bookings)),
      (''pending'', length (filter (\<lambda>b. status b = ''pending'') bookings)),
      (''confirmed'', length (filter (\<lambda>b. status b = ''confirmed'') bookings))]"

text \<open>The five tabs the page renders, in source order.\<close>

definition tab_keys :: "string list" where
  "tab_keys = [''all'', ''upcoming'', ''pending'', ''confirmed'', ''past'']"

subsection \<open>getStatusColor\<close>







subsection \<open>formatTime\<close>

text \<open>
  \<^verbatim>\<open>parseInt(hours)\<close> without a radix: leading white space is skipped, then an optional
  sign, then a \<^verbatim>\<open>0x\<close> prefix selects radix 16, then the longest run of digits is read;
  no digit gives NaN. The integer read is then converted to a Number, that is rounded
  to the nearest double (ties to even), or to an infinity when it is too large for a
  double. For more than 20 significant decimal digits the language allows an
  implementation to read the further digits as zeros; the model reads all digits.
\<close>

datatype jsnum = NaN | Finite int | PosInfinity | NegInfinity

fun bit_length :: "nat \<Rightarrow> nat" where
  "bit_length n = (if n = 0 then 0 else Suc (bit_length (n div 2)))"

declare bit_length.simps [simp del]

text \<open>
  The nearest double of a natural number, \<open>None\<close> when that is infinity. Up to
  \<open>2^53 = 9007199254740992\<close> every integer is a double; above, the 53 leading bits are
  kept and the rest is rounded off; a result of more than 1024 bits is infinity.
\<close>

definition to_double :: "nat \<Rightarrow> nat option" where
  "to_double n =
     (if n < 9007199254740992 then Some n
      else
        let e = bit_length n - 53;
            q = n div 2 ^ e;
            r = n mod 2 ^ e;
            half = 2 ^ (e - 1);
            m = (if r > half \<or> (r = half \<and> odd q) then q + 1 else q)
        in if bit_length m + e > 1024 then None else Some (m * 2 ^ e))"

definition is_space_char :: "char \<Rightarrow> bool" where
  "is_space_char c \<longleftrightarrow> (of_char c :: nat) \<in> set [9, 10, 11, 12, 13, 32, 160]"

definition digit_of :: "char \<Rightarrow> nat" where
  "digit_of c =
     (let n = of_char c :: nat in
      if 48 \<le> n \<and> n \<le> 57 then n - 48
      else if 97 \<le> n \<and> n \<le> 122 then n - 87
      else if 65 \<le> n \<and> n \<le> 90 then n - 55
      else 36)"

fun strip_sign :: "string \<Rightarrow> bool \<times> string" where
  "strip_sign [] = (False, [])"
| "strip_sign (c # cs) =
     (if c = CHR ''-'' then (True, cs) else if c = CHR ''+'' then (False, cs) else (False, c # cs))"

fun strip_radix :: "string \<Rightarrow> nat \<times> string" where
  "strip_radix (a # b # cs) =
     (if a = CHR ''0'' \<and> (b = CHR ''x'' \<or> b = CHR ''X'') then (16, cs) else (10, a # b # cs))"
| "strip_radix cs = (10, cs)"

definition parseInt :: "string \<Rightarrow> jsnum" where
  "parseInt input =
     (let (neg, s) = strip_sign (dropWhile is_space_char input);
          (radix, s) = strip_radix s;
          ds = takeWhile (\<lambda>c. digit_of c < radix) s;
          n = foldl (\<lambda>acc c. acc * radix + digit_of c) 0 ds
      in if ds = [] then NaN
         else (case to_double n of
                 None \<Rightarrow> if neg then NegInfinity else PosInfinity
               | Some v \<Rightarrow> Finite (if neg then - int v else int v)))"

text \<open>
  \<^verbatim>\<open>a % b\<close> on integer-valued doubles: the remainder has the sign of the dividend and
  is exact.
\<close>

definition js_rem :: "int \<Rightarrow> int \<Rightarrow> int" where
  "js_rem a b = sgn a * (\<bar>a\<bar> mod \<bar>b\<bar>)"

text \<open>A number inside a template literal: its decimal digits, with a sign when negative.\<close>

definition digit_char :: "nat \<Rightarrow> char" where
  "digit_char d = ''0123456789'' ! d"

fun nat_to_string :: "nat \<Rightarrow> string" where
  "nat_to_string n =
     (if n < 10 then [digit_char n]
      else nat_to_string (n div 10) @ [digit_char (n mod 10)])"

declare nat_to_string.simps [simp del]

definition int_to_string :: "int \<Rightarrow> string" where
  "int_to_string i = (if i < 0 then CHR ''-'' # nat_to_string (nat (- i)) else nat_to_string (nat i))"

text \<open>
  \<^verbatim>\<open>const [hours, minutes] = time.split(':')\<close>: a missing second piece is \<^verbatim>\<open>undefined\<close>
  and prints as that word. \<^verbatim>\<open>hour >= 12\<close> is false for NaN and for the negative
  infinity, true for the positive one. \<^verbatim>\<open>hour % 12\<close> is NaN for NaN and for an infinity,
  so \<^verbatim>\<open>hour % 12 || 12\<close> is 12 then, as it is for a remainder of zero.
\<close>

definition formatTime :: "string \<Rightarrow> string" where
  "formatTime time_str =
     (let parts = split_on CHR '':'' time_str;
          hours = (case parts of h # _ \<Rightarrow> h | [] \<Rightarrow> []);
          minutes = (case parts of _ # m # _ \<Rightarrow> m | _ \<Rightarrow> ''undefined'');
          hour = parseInt hours;
          ampm = (case hour of
                    Finite h \<Rightarrow> if h \<ge> 12 then ''PM'' else ''AM''
                  | PosInfinity \<Rightarrow> ''PM''
                  | _ \<Rightarrow> ''AM'');
          displayHour = (case hour of
                           Finite h \<Rightarrow> if js_rem h 12 = 0 then 12 else js_rem h 12
                         | _ \<Rightarrow> 12)
      in int_to_string displayHour @ '':'' @ minutes @ '' '' @ ampm)"

section \<open>DashboardPage\<close>

text \<open>The page's own copy of \<^verbatim>\<open>formatTime\<close>.\<close>

definition dashboard_formatTime :: "string \<Rightarrow> string" where
  "dashboard_formatTime time_str =
     (let parts = split_on CHR '':'' time_str;
          hours = (case parts of h # _ \<Rightarrow> h | [] \<Rightarrow> []);
          minutes = (case parts of _ # m # _ \<Rightarrow> m | _ \<Rightarrow> ''undefined'');
          hour = parseInt hours;
          ampm = (case hour of
                    Finite h \<Rightarrow> if h \<ge> 12 then ''PM'' else ''AM''
                  | PosInfinity \<Rightarrow> ''PM''
                  | _ \<Rightarrow> ''AM'');
          displayHour = (case hour of
                           Finite h \<Rightarrow> if js_rem h 12 = 0 then 12 else js_rem h 12
                         | _ \<Rightarrow> 12)
      in int_to_string displayHour @ '':'' @ minutes @ '' '' @ ampm)"

subsection \<open>fetchDashboardData\<close>


text \<open>
  The state variable \<open>stats\<close>. \<open>completedSessions\<close> is absent from the initial object,
  hence optional; \<open>reputation\<close> may be \<^verbatim>\<open>null\<close>.
\<close>

record ('b, 'r) stats =
  bookings :: "'b list"
  completedSessions :: "nat option"
  credits :: int
  reputation :: "'r option"
  loading :: bool



text \<open>
  \<open>currentUser\<close> is what \<^verbatim>\<open>getCurrentUser()\<close> returned: \<open>None\<close> for \<^verbatim>\<open>null\<close> (the page
  itself reads \<^verbatim>\<open>currentUser?.name\<close>), \<open>Some uid\<close> for a user whose \<^verbatim>\<open>id\<close> is \<open>uid\<close>.

  The array given to \<^verbatim>\<open>Promise.all\<close> is built from left to right, and each element is
  a call that returns its promise at once. So \<^verbatim>\<open>getBookings()\<close> and \<^verbatim>\<open>getCredits()\<close>
  are called first; then \<^verbatim>\<open>currentUser.id\<close> is read, which throws for \<^verbatim>\<open>null\<close>, and
  only for a user \<^verbatim>\<open>getUserReputation\<close> is called.
\<close>

definition fetchDashboardData_calls :: "'u option \<Rightarrow> ('u, 'c) api_call list" where
  "fetchDashboardData_calls currentUser =
     (case currentUser of
        None \<Rightarrow> [GetBookings, GetCredits]
      | Some uid \<Rightarrow> [GetBookings, GetCredits, GetUserReputation uid])"



section \<open>ProjectsPage\<close>

record 'p projects_page =
  projects :: "'p list"
  loading_pr :: bool
  error_pr :: errval
  showCreateForm :: bool
  joinLoading :: "nat option"
  newProject :: new_project

text \<open>\<^verbatim>\<open>fetchProjects\<close>, given the outcome of \<^verbatim>\<open>getProjects()\<close>.\<close>

definition fetchProjects :: "'p projects_page \<Rightarrow> errval + 'p list \<Rightarrow> 'p projects_page" where
  "fetchProjects st resp =
     (let st1 = st\<lparr>loading_pr := True\<rparr>;
          st2 = (case resp of
                   Inr data \<Rightarrow> st1\<lparr>projects := data\<rparr>
                 | Inl err \<Rightarrow> st1\<lparr>error_pr := or_else err ''Failed to fetch projects''\<rparr>)
      in st2\<lparr>loading_pr := False\<rparr>)"

text \<open>
  The object \<^verbatim>\<open>projectData\<close>:
  \<^verbatim>\<open>{...newProject, skills: newProject.skills.split(',').map(s => s.trim()).filter(Boolean)}\<close>.
  \<^verbatim>\<open>filter(Boolean)\<close> keeps the strings that are not empty.
\<close>

definition projectData :: "new_project \<Rightarrow> project_data" where
  "projectData np =
     \<lparr>data_title = title np, data_description = description np,
      data_skills = filter (\<lambda>s. s \<noteq> []) (map trim (split_on comma (skills np))),
      data_location = location np\<rparr>"

text \<open>
  \<^verbatim>\<open>handleCreateProject\<close>, given the outcomes of \<^verbatim>\<open>createProject\<close> and of the
  \<^verbatim>\<open>getProjects\<close> that follows a success. It returns the calls made, in order, and the
  page state afterwards.
\<close>

definition handleCreateProject ::
  "'p projects_page \<Rightarrow> errval + unit \<Rightarrow> errval + 'p list \<Rightarrow>
   ('u, 'c) api_call list \<times> 'p projects_page" where
  "handleCreateProject st createResp fetchResp =
     (let st1 = st\<lparr>error_pr := ErrText []\<rparr>;
          req = CreateProject (projectData (newProject st))
      in case createResp of
           Inl err \<Rightarrow> ([req], st1\<lparr>error_pr := or_else err ''Failed to create project''\<rparr>)
         | Inr _ \<Rightarrow>
             ([req, GetProjects],
              fetchProjects
                (st1\<lparr>newProject := \<lparr>title = [], description = [], skills = [], location = []\<rparr>,
                     showCreateForm := False\<rparr>)
                fetchResp))"

section \<open>SkillsPage\<close>

record 's skill_lists =
  offering :: "'s list"
  seeking :: "'s list"

record 's skills_page =
  skills_sk :: "'s skill_lists"
  newSkill :: new_skill
  loading_sk :: bool
  error_sk :: errval
  success :: jstring
  deleteLoading :: "nat option"
  activeTab :: string

text \<open>\<^verbatim>\<open>fetchSkills\<close>, given the outcome of \<^verbatim>\<open>getSkills()\<close>.\<close>

definition fetchSkills :: "'s skills_page \<Rightarrow> errval + 's skill_lists \<Rightarrow> 's skills_page" where
  "fetchSkills st resp =
     (case resp of
        Inr data \<Rightarrow> st\<lparr>skills_sk := data\<rparr>
      | Inl err \<Rightarrow> st\<lparr>error_sk := or_else err ''Failed to fetch skills''\<rparr>)"

text \<open>The success text starts with the check-mark character U+2705.\<close>

definition skill_added :: jstring where
  "skill_added = 0x2705 # utf16 '' Skill added successfully! +2 credits earned''"

text \<open>
  \<^verbatim>\<open>handleAddSkill\<close>, given the outcomes of \<^verbatim>\<open>addSkill\<close> and of the \<^verbatim>\<open>getSkills\<close> that
  follows a success. It returns the effects in order (backend calls, and the timer that
  later clears the success text) and the page state when the handler has finished.
\<close>

definition handleAddSkill ::
  "'s skills_page \<Rightarrow> errval + unit \<Rightarrow> errval + 's skill_lists \<Rightarrow>
   ('u, 'c) effect list \<times> 's skills_page" where
  "handleAddSkill st addResp fetchResp =
     (if trim (skillName (newSkill st)) = [] then
        ([], st\<lparr>error_sk := ErrText ''Skill name is required''\<rparr>)
      else
        let st1 = st\<lparr>loading_sk := True, error_sk := ErrText [], success := []\<rparr>;
            req = Request (AddSkill (newSkill st))
        in case addResp of
             Inr _ \<Rightarrow>
               ([req, Request GetSkills, SetTimeout 3000],
                (fetchSkills
                   (st1\<lparr>success := skill_added,
                        newSkill := \<lparr>skillName = [], skill_type = ''offering'', proficiency = 3\<rparr>\<rparr>)
                   fetchResp)\<lparr>loading_sk := False\<rparr>)
           | Inl err \<Rightarrow>
               ([req], st1\<lparr>error_sk := or_else err ''Failed to add skill'', loading_sk := False\<rparr>))"

section \<open>SearchPage\<close>

record ('r, 'c) search_page =
  searchQuery :: jstring
  searchType :: string
  radius :: int
  results :: "'r list"
  loading_se :: bool
  searched :: bool
  error_se :: errval
  currentLocation :: "('c \<times> 'c) option"
  locationPermission :: string
  viewMode :: string
  isBookingModalOpen :: bool
  selectedProvider :: "'r option"

text \<open>
  What the browser's geolocation does when asked: the API is missing, nobody answers
  the prompt, the request fails, or a position arrives.
\<close>

datatype 'c geolocation = Unsupported | NoAnswer | Refused | Position 'c 'c

text \<open>
  \<^verbatim>\<open>requestLocation\<close>: only a position leads to a backend call, the \<^verbatim>\<open>api.put\<close> that
  stores it (a failure of that call is logged and nothing else).
\<close>

definition requestLocation ::
  "('r, 'c) search_page \<Rightarrow> 'c geolocation \<Rightarrow> ('u, 'c) api_call list \<times> ('r, 'c) search_page" where
  "requestLocation st geo =
     (case geo of
        Unsupported \<Rightarrow> ([], st\<lparr>locationPermission := ''denied''\<rparr>)
      | NoAnswer \<Rightarrow> ([], st)
      | Refused \<Rightarrow> ([], st\<lparr>locationPermission := ''denied''\<rparr>)
      | Position lat lng \<Rightarrow>
          ([PutUsersLocation lat lng],
           st\<lparr>currentLocation := Some (lat, lng), locationPermission := ''granted''\<rparr>))"

text \<open>\<^verbatim>\<open>err.response?.data?.error || err || 'Search failed'\<close>\<close>

fun search_failure :: "errval \<Rightarrow> errval" where
  "search_failure (ErrObject (Some e)) = (if e \<noteq> [] then ErrText e else ErrObject (Some e))"
| "search_failure err = or_else err ''Search failed''"

text \<open>
  \<^verbatim>\<open>handleSearch\<close>, given the outcome of the one search call it makes. It returns the
  calls made and the page state afterwards.
\<close>

definition handleSearch ::
  "('r, 'c) search_page \<Rightarrow> errval + 'r list \<Rightarrow> ('u, 'c) api_call list \<times> ('r, 'c) search_page" where
  "handleSearch st resp =
     (if trim (searchQuery st) = [] then
        ([], st\<lparr>error_se := ErrText ''Please enter a skill to search''\<rparr>)
      else
        let st1 = st\<lparr>loading_se := True, error_se := ErrText [], searched := True\<rparr>;
            req = (case currentLocation st of
                     Some (lat, lng) \<Rightarrow> GetUsersNearby (searchQuery st) (radius st) lat lng
                   | None \<Rightarrow> SearchUsers (searchQuery st) (searchType st))
        in case resp of
             Inr data \<Rightarrow> ([req], st1\<lparr>results := data, loading_se := False\<rparr>)
           | Inl err \<Rightarrow> ([req], st1\<lparr>error_se := search_failure err, loading_se := False\<rparr>))"

section \<open>HomePage\<close>

text \<open>
  An \<^verbatim>\<open>IntersectionObserverEntry\<close>, as far as the callback reads it:
  \<^verbatim>\<open>entry.isIntersecting\<close> and \<^verbatim>\<open>entry.target.dataset.section\<close>. Only elements that
  carry the \<^verbatim>\<open>data-section\<close> attribute are observed.
\<close>

record entry =
  isIntersecting :: bool
  dataset_section :: string

text \<open>
  The state \<open>visibleSections\<close> is a JavaScript \<open>Set\<close>: its elements without repetition,
  in insertion order. \<^verbatim>\<open>new Set([...prev, x])\<close> appends \<open>x\<close> unless it is there already.
\<close>

type_synonym visible_sections = "string list"

definition set_add :: "string \<Rightarrow> visible_sections \<Rightarrow> visible_sections" where
  "set_add x prev = (if x \<in> set prev then prev else prev @ [x])"

definition has :: "visible_sections \<Rightarrow> string \<Rightarrow> bool" where
  "has vs x \<longleftrightarrow> x \<in> set vs"

text \<open>
  One invocation of the observer's callback: every intersecting entry queues an
  update of the state, and the updates are applied in the order of the entries.
\<close>

definition observer_callback :: "entry list \<Rightarrow> visible_sections \<Rightarrow> visible_sections" where
  "observer_callback entries vs =
     fold (\<lambda>e prev. if isIntersecting e then set_add (dataset_section e) prev else prev) entries vs"

text \<open>The callbacks of the component's lifetime, from mount to unmount, one after the other.\<close>

definition observer_run :: "entry list list \<Rightarrow> visible_sections \<Rightarrow> visible_sections" where
  "observer_run calls vs = fold observer_callback calls vs"

section \<open>What each page requests when it mounts\<close>

datatype page = HomePage | BookingPage | ProjectsPage | DashboardPage | SkillsPage | SearchPage

text \<open>
  The backend calls made by the effects with an empty dependency list:
  \<^verbatim>\<open>fetchBookings\<close>, \<^verbatim>\<open>fetchProjects\<close>, \<^verbatim>\<open>fetchDashboardData\<close>, \<^verbatim>\<open>fetchSkills\<close>,
  \<^verbatim>\<open>requestLocation\<close>; HomePage's effect only creates the IntersectionObserver.
\<close>

definition mount_requests ::
  "page \<Rightarrow> 'u option \<Rightarrow> 'c geolocation \<Rightarrow> ('u, 'c) api_call list" where
  "mount_requests p currentUser geo =
     (case p of
        HomePage \<Rightarrow> []
      | BookingPage \<Rightarrow> [GetBookings]
      | ProjectsPage \<Rightarrow> [GetProjects]
      | DashboardPage \<Rightarrow> fetchDashboardData_calls currentUser
      | SkillsPage \<Rightarrow> [GetSkills]
      | SearchPage \<Rightarrow> (case geo of Position lat lng \<Rightarrow> [PutUsersLocation lat lng] | _ \<Rightarrow> []))"

section \<open>Sample data for worked instances\<close>

text \<open>
  A date parser that knows two texts, and three bookings: one confirmed in the future,
  one pending in the past, one cancelled in the future. The current time used with
  them is 1700000000000.
\<close>

definition sample_parse :: "string \<Rightarrow> timeval" where
  "sample_parse s =
     (if s = ''2030-01-01T10:00'' then Some 1893492000000
      else if s = ''2020-01-01T10:00'' then Some 1577872800000
      else None)"

definition sample_bookings :: "booking list" where
  "sample_bookings =
     [\<lparr>status = ''confirmed'', date = ''2030-01-01'', time = ''10:00''\<rparr>,
      \<lparr>status = ''pending'', date = ''2020-01-01'', time = ''10:00''\<rparr>,
      \<lparr>status = ''cancelled'', date = ''2030-01-01'', time = ''10:00''\<rparr>]"

text \<open>
  A parser that knows two times of one day, 09:00 and 18:00, and four bookings of that
  day. They are used with a current time between the two, 1893500000000, so that
  only the time field decides on which side of now a booking lies.
\<close>

definition day_parse :: "string \<Rightarrow> timeval" where
  "day_parse s =
     (if s = ''2030-01-01T09:00'' then Some 1893488400000
      else if s = ''2030-01-01T18:00'' then Some 1893520800000
      else None)"

definition day_bookings :: "booking list" where
  "day_bookings =
     [\<lparr>status = ''confirmed'', date = ''2030-01-01'', time = ''09:00''\<rparr>,
      \<lparr>status = ''confirmed'', date = ''2030-01-01'', time = ''18:00''\<rparr>,
      \<lparr>status = ''completed'', date = ''2030-01-01'', time = ''18:00''\<rparr>,
      \<lparr>status = ''pending'', date = ''2030-01-01'', time = ''18:00''\<rparr>]"

text \<open>
  A project form whose skills field reads \<open>" a,,<em space>b c<no-break space>, "\<close>, one
  whose skills field holds white space only, and a page showing the first form.
\<close>

definition sample_form :: new_project where
  "sample_form =
     \<lparr>title = utf16 ''App'', description = [],
      skills = [0x20, 0x61, 0x2C, 0x2C, 0x2003, 0x62, 0x20, 0x63, 0xA0, 0x2C, 0x20],
      location = []\<rparr>"

definition blank_form :: new_project where
  "blank_form = \<lparr>title = utf16 ''App'', description = [], skills = [0x20, 0x2003, 0x9], location = []\<rparr>"

text \<open>A page whose project form has a title of two spaces; the title input is marked required.\<close>

definition blank_title_page :: "nat projects_page" where
  "blank_title_page =
     \<lparr>projects = [], loading_pr = False, error_pr = ErrText [], showCreateForm = True,
      joinLoading = None,
      newProject = \<lparr>title = [0x20, 0x20], description = utf16 ''Weekend build'',
                     skills = utf16 ''react'', location = []\<rparr>\<rparr>"

definition sample_projects_page :: "nat projects_page" where
  "sample_projects_page =
     \<lparr>projects = [], loading_pr = False, error_pr = ErrText [], showCreateForm = True,
      joinLoading = None, newProject = sample_form\<rparr>"

text \<open>
  A skills page whose name field holds a space and a tab, and the search page in its
  initial state (empty query).
\<close>

definition sample_skills_page :: "nat skills_page" where
  "sample_skills_page =
     \<lparr>skills_sk = \<lparr>offering = [1], seeking = []\<rparr>,
      newSkill = \<lparr>skillName = [0x20, 0x9], skill_type = ''offering'', proficiency = 3\<rparr>,
      loading_sk = False, error_sk = ErrText [], success = [], deleteLoading = None,
      activeTab = ''all''\<rparr>"

definition sample_search_page :: "(nat, int) search_page" where
  "sample_search_page =
     \<lparr>searchQuery = [], searchType = ''offering'', radius = 50, results = [],
      loading_se = False, searched = False, error_se = ErrText [], currentLocation = None,
      locationPermission = ''prompt'', viewMode = ''grid'', isBookingModalOpen = False,
      selectedProvider = None\<rparr>"

text \<open>Two observer entries: the features section enters the view, the cta section does not.\<close>

definition sample_entries :: "entry list" where
  "sample_entries =
     [\<lparr>isIntersecting = True, dataset_section = ''features''\<rparr>,
      \<lparr>isIntersecting = False, dataset_section = ''cta''\<rparr>]"

text \<open>The hour of a time text written with two decimal digits.\<close>

definition two_digits :: "nat \<Rightarrow> string" where
  "two_digits h = [digit_char (h div 10), digit_char (h mod 10)]"

section \<open>Properties of the booking filters\<close>

lemma date_gt_iff: "date_gt d now \<longleftrightarrow> (\<exists>t. d = Some t \<and> now < t)"
  by (cases d) (simp_all add: date_gt_def)

lemma date_lt_iff: "date_lt d now \<longleftrightarrow> (\<exists>t. d = Some t \<and> t < now)"
  by (cases d) (simp_all add: date_lt_def)

text \<open>
  Claim C1. With filter 'upcoming' the stored list is exactly the bookings (in their
  order) whose status is 'confirmed' or 'pending' and for which the text made of the
  date, the letter T and the time parses to a valid time strictly after now; with
  'past' exactly those whose status is 'completed' or for which that text parses to a
  valid time strictly before now; with 'all' the list is unchanged.
\<close>

theorem filterBookings_upcoming_past_all:
  "filterBookings parseDate now ''upcoming'' bs =
     filter (\<lambda>b. (status b = ''confirmed'' \<or> status b = ''pending'') \<and>
                  (\<exists>t. parseDate (date b @ ''T'' @ time b) = Some t \<and> now < t)) bs
   \<and> filterBookings parseDate now ''past'' bs =
     filter (\<lambda>b. status b = ''completed'' \<or>
                  (\<exists>t. parseDate (date b @ ''T'' @ time b) = Some t \<and> t < now)) bs
   \<and> filterBookings parseDate now ''all'' bs = bs"
  by (simp add: filterBookings_def bookingDateTime_def date_gt_iff date_lt_iff)

theorem filterBookings_upcoming_past_all_witness:
  "filterBookings day_parse 1893500000000 ''upcoming'' day_bookings =
     [\<lparr>status = ''confirmed'', date = ''2030-01-01'', time = ''18:00''\<rparr>,
      \<lparr>status = ''pending'', date = ''2030-01-01'', time = ''18:00''\<rparr>]
   \<and> filterBookings day_parse 1893500000000 ''past'' day_bookings =
     [\<lparr>status = ''confirmed'', date = ''2030-01-01'', time = ''09:00''\<rparr>,
      \<lparr>status = ''completed'', date = ''2030-01-01'', time = ''18:00''\<rparr>]
   \<and> filterBookings day_parse 1893500000000 ''all'' day_bookings = day_bookings"
  using filterBookings_upcoming_past_all [of day_parse 1893500000000 day_bookings]
  by (simp add: day_parse_def day_bookings_def)

text \<open>
  Claim C3. For each of the five tab keys, the count shown on the tab,
  \<^verbatim>\<open>filterCounts[key]\<close>, is the length of the list \<^verbatim>\<open>filterBookings\<close> stores for that
  key, both taken at the same current time.
\<close>

theorem filterCounts_agree:
  "key \<in> set tab_keys \<Longrightarrow>
   map_of (filterCounts parseDate now bs) key =
     Some (length (filterBookings parseDate now key bs))"
  by (auto simp: tab_keys_def filterCounts_def filterBookings_def)

theorem filterCounts_agree_witness:
  "''upcoming'' \<in> set tab_keys
   \<and> map_of (filterCounts sample_parse 1700000000000 sample_bookings) ''upcoming'' =
       Some (length (filterBookings sample_parse 1700000000000 ''upcoming'' sample_bookings))
   \<and> length (filterBookings sample_parse 1700000000000 ''upcoming'' sample_bookings) = 1"
proof -
  have k: "''upcoming'' \<in> set tab_keys"
    by (simp add: tab_keys_def)
  show ?thesis
    using k filterCounts_agree [OF k, of sample_parse 1700000000000 sample_bookings]
    by (simp add: filterBookings_def sample_parse_def sample_bookings_def
        bookingDateTime_def date_gt_def)
qed

text \<open>
  Claim C8. The lists stored for 'upcoming' and for 'past' have no booking in common.
  They do not cover the list: a listed booking with status 'cancelled' and a date-time
  after now is in neither (nor under 'pending' or 'confirmed'); it is shown under
  'all' only.
\<close>

theorem upcoming_past_disjoint:
  "set (filterBookings parseDate now ''upcoming'' bs) \<inter>
     set (filterBookings parseDate now ''past'' bs) = {}
   \<and> (b \<in> set bs \<and> status b = ''cancelled'' \<and> bookingDateTime parseDate b = Some t \<and> now < t \<longrightarrow>
        b \<notin> set (filterBookings parseDate now ''upcoming'' bs)
        \<and> b \<notin> set (filterBookings parseDate now ''past'' bs)
        \<and> b \<notin> set (filterBookings parseDate now ''pending'' bs)
        \<and> b \<notin> set (filterBookings parseDate now ''confirmed'' bs)
        \<and> b \<in> set (filterBookings parseDate now ''all'' bs))"
  by (auto simp: filterBookings_def date_gt_def date_lt_def split: option.splits)

theorem upcoming_past_disjoint_witness:
  "\<lparr>status = ''cancelled'', date = ''2030-01-01'', time = ''10:00''\<rparr> \<in> set sample_bookings
   \<and> bookingDateTime sample_parse \<lparr>status = ''cancelled'', date = ''2030-01-01'', time = ''10:00''\<rparr>
       = Some 1893492000000
   \<and> (1700000000000 :: int) < 1893492000000
   \<and> \<lparr>status = ''cancelled'', date = ''2030-01-01'', time = ''10:00''\<rparr>
       \<notin> set (filterBookings sample_parse 1700000000000 ''upcoming'' sample_bookings)
   \<and> \<lparr>status = ''cancelled'', date = ''2030-01-01'', time = ''10:00''\<rparr>
       \<notin> set (filterBookings sample_parse 1700000000000 ''past'' sample_bookings)
   \<and> \<lparr>status = ''cancelled'', date = ''2030-01-01'', time = ''10:00''\<rparr>
       \<in> set (filterBookings sample_parse 1700000000000 ''all'' sample_bookings)
   \<and> set (filterBookings sample_parse 1700000000000 ''upcoming'' sample_bookings) \<inter>
       set (filterBookings sample_parse 1700000000000 ''past'' sample_bookings) = {}"
proof -
  let ?b = "\<lparr>status = ''cancelled'', date = ''2030-01-01'', time = ''10:00''\<rparr>"
  have m: "?b \<in> set sample_bookings"
    by (simp add: sample_bookings_def)
  have d: "bookingDateTime sample_parse ?b = Some 1893492000000"
    by (simp add: bookingDateTime_def sample_parse_def)
  show ?thesis
    using m d upcoming_past_disjoint
      [of sample_parse 1700000000000 sample_bookings ?b 1893492000000]
    by simp
qed

section \<open>Status styling\<close>







section \<open>Splitting and trimming\<close>

lemma split_on_not_Nil: "split_on sep s \<noteq> []"
  by (induction s) (auto split: list.splits)

lemma join_on_Cons: "ps \<noteq> [] \<Longrightarrow> join_on sep (p # ps) = p @ sep # join_on sep ps"
  by (cases ps) simp_all

lemma join_split_on: "join_on sep (split_on sep s) = s"
proof (induction s)
  case Nil
  show ?case by simp
next
  case (Cons c cs)
  show ?case
  proof (cases "c = sep")
    case True
    with Cons show ?thesis
      by (simp add: join_on_Cons split_on_not_Nil)
  next
    case False
    obtain p ps where sp: "split_on sep cs = p # ps"
      using split_on_not_Nil [of sep cs] by (cases "split_on sep cs") auto
    with Cons False show ?thesis
      by (cases ps) simp_all
  qed
qed

lemma split_on_no_sep: "p \<in> set (split_on sep s) \<Longrightarrow> sep \<notin> set p"
proof (induction s arbitrary: p)
  case Nil
  then show ?case by simp
next
  case (Cons c cs)
  then show ?case
    by (auto split: if_splits list.splits)
qed

lemma split_on_without_sep: "sep \<notin> set s \<Longrightarrow> split_on sep s = [s]"
  by (induction s) auto

lemma last_dropWhile: "dropWhile P xs \<noteq> [] \<Longrightarrow> last (dropWhile P xs) = last xs"
  by (induction xs) auto

lemma dropWhile_Nil_all: "dropWhile P xs = [] \<longleftrightarrow> (\<forall>x \<in> set xs. P x)"
  by (rule dropWhile_eq_Nil_conv)

lemma trim_Nil_iff: "trim s = [] \<longleftrightarrow> (\<forall>c \<in> set s. isWhiteSpace c)"
proof
  assume "trim s = []"
  then have "dropWhile isWhiteSpace (rev (dropWhile isWhiteSpace s)) = []"
    unfolding trim_def by (simp only: rev_is_Nil_conv)
  then have all: "\<forall>c \<in> set (dropWhile isWhiteSpace s). isWhiteSpace c"
    by (simp only: dropWhile_Nil_all set_rev)
  have "dropWhile isWhiteSpace s = []"
  proof (rule ccontr)
    assume ne: "dropWhile isWhiteSpace s \<noteq> []"
    then have "\<not> isWhiteSpace (hd (dropWhile isWhiteSpace s))"
      by (rule hd_dropWhile)
    moreover have "hd (dropWhile isWhiteSpace s) \<in> set (dropWhile isWhiteSpace s)"
      using ne by (rule hd_in_set)
    ultimately show False
      using all by blast
  qed
  then show "\<forall>c \<in> set s. isWhiteSpace c"
    by (simp only: dropWhile_Nil_all)
next
  assume "\<forall>c \<in> set s. isWhiteSpace c"
  then have "dropWhile isWhiteSpace s = []"
    by (simp only: dropWhile_Nil_all)
  then show "trim s = []"
    unfolding trim_def by (simp only: rev.simps dropWhile.simps)
qed

lemma trim_hd: "trim s \<noteq> [] \<Longrightarrow> \<not> isWhiteSpace (hd (trim s))"
proof -
  assume ne: "trim s \<noteq> []"
  let ?a = "dropWhile isWhiteSpace s"
  let ?b = "dropWhile isWhiteSpace (rev ?a)"
  have b: "?b \<noteq> []"
    using ne by (simp add: trim_def)
  have a: "?a \<noteq> []"
  proof
    assume "?a = []"
    then have "?b = []"
      by (simp only: rev.simps dropWhile.simps)
    with b show False
      by blast
  qed
  have "hd (trim s) = last ?b"
    using b by (simp add: trim_def hd_rev)
  also have "\<dots> = last (rev ?a)"
    using b by (rule last_dropWhile)
  also have "\<dots> = hd ?a"
    using a by (simp add: last_rev)
  finally show ?thesis
    using hd_dropWhile [OF a] by simp
qed

lemma trim_last: "trim s \<noteq> [] \<Longrightarrow> \<not> isWhiteSpace (last (trim s))"
proof -
  assume ne: "trim s \<noteq> []"
  let ?b = "dropWhile isWhiteSpace (rev (dropWhile isWhiteSpace s))"
  have b: "?b \<noteq> []"
    using ne by (simp add: trim_def)
  have "last (trim s) = hd ?b"
    using b by (simp add: trim_def last_rev)
  then show ?thesis
    using hd_dropWhile [OF b] by simp
qed

lemma comma_not_space: "\<not> isWhiteSpace comma"
  by (simp add: isWhiteSpace_def comma_def)

lemma blank_skills: "\<forall>c \<in> set s. isWhiteSpace c \<Longrightarrow> filter (\<lambda>p. p \<noteq> []) (map trim (split_on comma s)) = []"
proof -
  assume ws: "\<forall>c \<in> set s. isWhiteSpace c"
  then have "comma \<notin> set s"
    using comma_not_space by blast
  then have "split_on comma s = [s]"
    by (rule split_on_without_sep)
  moreover have "trim s = []"
    using ws by (simp only: trim_Nil_iff)
  ultimately show ?thesis by simp
qed

section \<open>ProjectsPage: the skills sent to the backend\<close>

text \<open>
  Claim C4. The first call of \<^verbatim>\<open>handleCreateProject\<close> is \<^verbatim>\<open>createProject\<close> with the object
  \<open>projectData\<close>, whose skills are the pieces of the input between commas (joining the
  pieces with commas gives the input back, and no piece contains a comma), each
  trimmed, without the empty ones. So no sent skill is empty or starts or ends with
  white space, and an input of white space only (also the empty input) sends the empty
  list.
\<close>

theorem handleCreateProject_skills:
  "(\<exists>rest. fst (handleCreateProject st createResp fetchResp) =
       CreateProject (projectData (newProject st)) # rest)
   \<and> data_skills (projectData (newProject st)) =
       filter (\<lambda>p. p \<noteq> []) (map trim (split_on comma (skills (newProject st))))
   \<and> join_on comma (split_on comma (skills (newProject st))) = skills (newProject st)
   \<and> (\<forall>p \<in> set (split_on comma (skills (newProject st))). comma \<notin> set p)
   \<and> (\<forall>x \<in> set (data_skills (projectData (newProject st))).
         x \<noteq> [] \<and> \<not> isWhiteSpace (hd x) \<and> \<not> isWhiteSpace (last x))
   \<and> ((\<forall>c \<in> set (skills (newProject st)). isWhiteSpace c) \<longrightarrow>
         data_skills (projectData (newProject st)) = [])"
proof (intro conjI)
  show "\<exists>rest. fst (handleCreateProject st createResp fetchResp) =
       CreateProject (projectData (newProject st)) # rest"
    by (cases createResp) (simp_all add: handleCreateProject_def)
  show "data_skills (projectData (newProject st)) =
       filter (\<lambda>p. p \<noteq> []) (map trim (split_on comma (skills (newProject st))))"
    by (simp add: projectData_def)
  show "join_on comma (split_on comma (skills (newProject st))) = skills (newProject st)"
    by (rule join_split_on)
  show "\<forall>p \<in> set (split_on comma (skills (newProject st))). comma \<notin> set p"
  proof (intro ballI)
    fix p
    assume "p \<in> set (split_on comma (skills (newProject st)))"
    then show "comma \<notin> set p"
      by (rule split_on_no_sep)
  qed
  show "\<forall>x \<in> set (data_skills (projectData (newProject st))).
         x \<noteq> [] \<and> \<not> isWhiteSpace (hd x) \<and> \<not> isWhiteSpace (last x)"
    using trim_hd trim_last by (auto simp: projectData_def)
  show "(\<forall>c \<in> set (skills (newProject st)). isWhiteSpace c) \<longrightarrow>
         data_skills (projectData (newProject st)) = []"
    using blank_skills by (simp add: projectData_def)
qed

theorem handleCreateProject_skills_witness:
  "fst (handleCreateProject sample_projects_page (Inr ()) (Inr [])
         :: (nat, int) api_call list \<times> nat projects_page) =
     [CreateProject (projectData sample_form), GetProjects]
   \<and> data_skills (projectData sample_form) = [[0x61], [0x62, 0x20, 0x63]]
   \<and> join_on comma (split_on comma (skills sample_form)) = skills sample_form
   \<and> data_skills (projectData blank_form) = []"
  using handleCreateProject_skills [of sample_projects_page "Inr ()" "Inr []"]
    handleCreateProject_skills [of "sample_projects_page\<lparr>newProject := blank_form\<rparr>" "Inr ()" "Inr []"]
  by (simp add: handleCreateProject_def projectData_def sample_projects_page_def
      sample_form_def blank_form_def trim_def isWhiteSpace_def comma_def)

section \<open>Form validation\<close>

lemma handleAddSkill_calls_backend:
  "\<not> (\<forall>c \<in> set (skillName (newSkill st)). isWhiteSpace c) \<Longrightarrow>
   \<exists>rest. fst (handleAddSkill st addResp fetchResp) = Request (AddSkill (newSkill st)) # rest"
  by (cases addResp) (simp_all add: handleAddSkill_def trim_Nil_iff Let_def)

lemma handleSearch_calls_backend:
  "\<not> (\<forall>c \<in> set (searchQuery sp). isWhiteSpace c) \<Longrightarrow>
   length (fst (handleSearch sp resp)) = 1"
  by (cases resp) (simp_all add: handleSearch_def trim_Nil_iff Let_def)

text \<open>
  Claim C5, as stated, speaks of every form submission whose required text field is
  empty or holds white space only. The project form's title is such a field, and
  \<^verbatim>\<open>handleCreateProject\<close> has no check of it: with a title of two spaces it clears the
  error and calls \<^verbatim>\<open>createProject\<close>.
\<close>

theorem handleCreateProject_no_validation:
  "trim (title (newProject blank_title_page)) = []
   \<and> fst (handleCreateProject blank_title_page (Inr ()) (Inr [])
          :: (nat, int) api_call list \<times> nat projects_page) =
       [CreateProject (projectData (newProject blank_title_page)), GetProjects]
   \<and> data_title (projectData (newProject blank_title_page)) = [0x20, 0x20]
   \<and> error_pr (snd (handleCreateProject blank_title_page (Inr ()) (Inr [])
          :: (nat, int) api_call list \<times> nat projects_page)) = ErrText []"
  by (simp add: handleCreateProject_def fetchProjects_def projectData_def blank_title_page_def
      trim_def isWhiteSpace_def)

text \<open>
  Claim C5, amended to the two handlers that validate their field.
  When the skill name consists of white space only (also when it is empty),
  \<^verbatim>\<open>handleAddSkill\<close> makes no backend call and changes nothing but the error, which
  becomes 'Skill name is required'; when the search query consists of white space only,
  \<^verbatim>\<open>handleSearch\<close> makes no backend call and changes nothing but the error, which
  becomes 'Please enter a skill to search'. The listed skills and the listed results
  stay as they were.
\<close>

theorem empty_field_rejected:
  "((\<forall>c \<in> set (skillName (newSkill st)). isWhiteSpace c) \<longrightarrow>
      handleAddSkill st addResp fetchResp =
        ([], st\<lparr>error_sk := ErrText ''Skill name is required''\<rparr>)
      \<and> skills_sk (snd (handleAddSkill st addResp fetchResp)) = skills_sk st)
   \<and> ((\<forall>c \<in> set (searchQuery sp). isWhiteSpace c) \<longrightarrow>
      handleSearch sp resp =
        ([], sp\<lparr>error_se := ErrText ''Please enter a skill to search''\<rparr>)
      \<and> results (snd (handleSearch sp resp)) = results sp)"
  by (simp add: handleAddSkill_def handleSearch_def trim_Nil_iff)

theorem empty_field_rejected_witness:
  "(handleAddSkill sample_skills_page (Inr ()) (Inr \<lparr>offering = [], seeking = []\<rparr>)
      :: (nat, int) effect list \<times> nat skills_page) =
     ([], sample_skills_page\<lparr>error_sk := ErrText ''Skill name is required''\<rparr>)
   \<and> (handleSearch sample_search_page (Inr [7])
      :: (nat, int) api_call list \<times> (nat, int) search_page) =
     ([], sample_search_page\<lparr>error_se := ErrText ''Please enter a skill to search''\<rparr>)"
proof -
  have blank: "\<forall>c \<in> set (skillName (newSkill sample_skills_page)). isWhiteSpace c"
    by (simp add: sample_skills_page_def isWhiteSpace_def)
  have empty: "\<forall>c \<in> set (searchQuery sample_search_page). isWhiteSpace c"
    by (simp add: sample_search_page_def)
  show ?thesis
    using blank empty
      empty_field_rejected [of sample_skills_page "Inr ()" "Inr \<lparr>offering = [], seeking = []\<rparr>"
        sample_search_page "Inr [7]"]
    by blast
qed

section \<open>DashboardPage: the data fetched on mount\<close>




section \<open>Requests on mount\<close>

text \<open>
  Claim C7, as stated, says that every page makes at least one backend request when it
  mounts. HomePage makes none, and SearchPage makes none when the browser refuses to give
  a position.
\<close>

theorem homepage_no_request:
  "mount_requests HomePage (Some (1::nat)) (NoAnswer :: int geolocation) = []
   \<and> mount_requests SearchPage (Some (1::nat)) (Refused :: int geolocation) = []"
  by (simp add: mount_requests_def)

text \<open>
  Claim C7, amended. BookingPage, ProjectsPage, DashboardPage and SkillsPage each make
  at least one backend request when they mount; HomePage makes none; SearchPage makes
  one exactly when the browser delivers a position.
\<close>

theorem mount_requests_by_page:
  "(p \<in> {BookingPage, ProjectsPage, DashboardPage, SkillsPage} \<longrightarrow>
      mount_requests p currentUser geo \<noteq> [])
   \<and> mount_requests HomePage currentUser geo = []
   \<and> (mount_requests SearchPage currentUser geo \<noteq> [] \<longleftrightarrow>
        (\<exists>lat lng. geo = Position lat lng))"
  by (cases geo; cases currentUser) (auto simp: mount_requests_def fetchDashboardData_calls_def)

theorem mount_requests_by_page_witness:
  "BookingPage \<in> {BookingPage, ProjectsPage, DashboardPage, SkillsPage}
   \<and> mount_requests BookingPage (Some (1::nat)) (Position 20 (85::int)) \<noteq> []
   \<and> mount_requests SearchPage (Some (1::nat)) (Position 20 (85::int)) \<noteq> []"
  using mount_requests_by_page [of BookingPage "Some (1::nat)" "Position 20 (85::int)"]
  by simp

section \<open>formatTime on two-digit hours\<close>

lemma split_on_two:
  "sep \<notin> set a \<Longrightarrow> sep \<notin> set m \<Longrightarrow> split_on sep (a @ sep # m) = [a, m]"
  by (induction a) (auto simp: split_on_without_sep)

lemma to_double_small: "n < 9007199254740992 \<Longrightarrow> to_double n = Some n"
  by (simp add: to_double_def)

lemma below_24:
  "h < 24 \<Longrightarrow>
   h \<in> set [0::nat, 1, 2, 3, 4, 5, 6, 7, 8, 9, 10, 11, 12, 13, 14, 15, 16, 17, 18, 19, 20, 21,
             22, 23]"
  by (simp only: set_simps insert_iff empty_iff) presburger

lemma hours_table:
  "list_all (\<lambda>h. parseInt (two_digits h) = Finite (int h) \<and> CHR '':'' \<notin> set (two_digits h))
     [0, 1, 2, 3, 4, 5, 6, 7, 8, 9, 10, 11, 12, 13, 14, 15, 16, 17, 18, 19, 20, 21, 22, 23]"
  by (simp add: parseInt_def two_digits_def digit_char_def is_space_char_def digit_of_def
      to_double_small)

lemma hours_ok:
  assumes "h < 24"
  shows "parseInt (two_digits h) = Finite (int h)" and "CHR '':'' \<notin> set (two_digits h)"
proof -
  have "parseInt (two_digits h) = Finite (int h) \<and> CHR '':'' \<notin> set (two_digits h)"
    using hours_table below_24 [OF assms] unfolding list_all_iff by blast
  then show "parseInt (two_digits h) = Finite (int h)" and "CHR '':'' \<notin> set (two_digits h)"
    by blast+
qed

lemma js_rem_nat: "js_rem (int h) 12 = int (h mod 12)"
  by (cases "h = 0") (simp_all add: js_rem_def zmod_int)

lemma int_to_string_nat: "int_to_string (int n) = nat_to_string n"
  by (simp add: int_to_string_def)

lemma formatTime_hm:
  assumes "h < 24" and "CHR '':'' \<notin> set m"
  shows "formatTime (two_digits h @ '':'' @ m) =
         nat_to_string (if h mod 12 = 0 then 12 else h mod 12) @ '':'' @ m @ '' '' @
           (if h < 12 then ''AM'' else ''PM'')"
proof -
  have sp: "split_on CHR '':'' (two_digits h @ '':'' @ m) = [two_digits h, m]"
    using hours_ok(2) [OF assms(1)] assms(2) split_on_two [of "CHR '':''" "two_digits h" m]
    by simp
  show ?thesis
    unfolding formatTime_def sp
    by (simp add: hours_ok(1) [OF assms(1)] js_rem_nat Let_def int_to_string_nat
        int_to_string_nat [of 12, simplified] int_to_string_nat [of 0, simplified])
qed

lemma formatTime_rounds_hour: "formatTime ''9007199254740993:00'' = ''8:00 PM''"
  by (simp add: formatTime_def parseInt_def is_space_char_def digit_of_def to_double_def
      bit_length.simps js_rem_def int_to_string_def nat_to_string.simps digit_char_def)

lemma dashboard_formatTime_same: "dashboard_formatTime t = formatTime t"
  by (simp add: dashboard_formatTime_def formatTime_def)

text \<open>
  Claim C9. For a time text made of a two-digit hour below 24, a colon and minutes (any
  text without a colon), \<^verbatim>\<open>formatTime\<close> of BookingPage and of DashboardPage both give
  the hour modulo 12, with 12 in place of 0, so a number from 1 to 12, then the colon,
  the minutes unchanged, a space, and 'AM' exactly when the hour is below 12. Hour 00
  gives 12 with AM and hour 12 gives 12 with PM.
\<close>

theorem formatTime_twelve_hour:
  assumes "h < 24" and "CHR '':'' \<notin> set m"
  shows "formatTime (two_digits h @ '':'' @ m) =
           nat_to_string (if h mod 12 = 0 then 12 else h mod 12) @ '':'' @ m @ '' '' @
             (if h < 12 then ''AM'' else ''PM'')
         \<and> dashboard_formatTime (two_digits h @ '':'' @ m) =
           nat_to_string (if h mod 12 = 0 then 12 else h mod 12) @ '':'' @ m @ '' '' @
             (if h < 12 then ''AM'' else ''PM'')
         \<and> 1 \<le> (if h mod 12 = 0 then 12 else h mod 12)
         \<and> (if h mod 12 = 0 then 12 else h mod 12) \<le> 12
         \<and> formatTime (''00:'' @ m) = ''12:'' @ m @ '' AM''
         \<and> formatTime (''12:'' @ m) = ''12:'' @ m @ '' PM''"
proof (intro conjI)
  show "formatTime (two_digits h @ '':'' @ m) =
           nat_to_string (if h mod 12 = 0 then 12 else h mod 12) @ '':'' @ m @ '' '' @
             (if h < 12 then ''AM'' else ''PM'')"
    using assms by (rule formatTime_hm)
  then show "dashboard_formatTime (two_digits h @ '':'' @ m) =
           nat_to_string (if h mod 12 = 0 then 12 else h mod 12) @ '':'' @ m @ '' '' @
             (if h < 12 then ''AM'' else ''PM'')"
    by (simp only: dashboard_formatTime_same)
  show "1 \<le> (if h mod 12 = 0 then 12 else h mod 12)"
    by simp
  show "(if h mod 12 = 0 then 12 else h mod 12) \<le> 12"
    by simp
  show "formatTime (''00:'' @ m) = ''12:'' @ m @ '' AM''"
    using formatTime_hm [of 0 m] assms(2)
    by (simp add: two_digits_def digit_char_def nat_to_string.simps)
  show "formatTime (''12:'' @ m) = ''12:'' @ m @ '' PM''"
    using formatTime_hm [of 12 m] assms(2)
    by (simp add: two_digits_def digit_char_def nat_to_string.simps)
qed

theorem formatTime_twelve_hour_witness:
  "(15::nat) < 24 \<and> CHR '':'' \<notin> set ''05''
   \<and> formatTime ''15:05'' = ''3:05 PM''
   \<and> dashboard_formatTime ''15:05'' = ''3:05 PM''
   \<and> formatTime ''00:05'' = ''12:05 AM''
   \<and> formatTime ''12:05'' = ''12:05 PM''"
proof -
  have h: "(15::nat) < 24"
    by simp
  have m: "CHR '':'' \<notin> set ''05''"
    by simp
  show ?thesis
    using h m formatTime_twelve_hour [OF h m]
    by (simp add: two_digits_def digit_char_def nat_to_string.simps)
qed

section \<open>HomePage: the visible sections only grow\<close>

lemma set_add_set: "set (set_add x vs) = insert x (set vs)"
  by (auto simp: set_add_def)

lemma observer_callback_set:
  "set (observer_callback es vs) = set vs \<union> dataset_section ` {e \<in> set es. isIntersecting e}"
  unfolding observer_callback_def
  by (induction es arbitrary: vs) (auto simp: set_add_set)

lemma observer_callback_distinct: "distinct vs \<Longrightarrow> distinct (observer_callback es vs)"
  unfolding observer_callback_def
  by (induction es arbitrary: vs) (auto simp: set_add_def)

lemma observer_run_mono: "set vs \<subseteq> set (observer_run calls vs)"
  unfolding observer_run_def
proof (induction calls arbitrary: vs)
  case Nil
  show ?case by simp
next
  case (Cons es calls)
  have "set vs \<subseteq> set (observer_callback es vs)"
    by (auto simp: observer_callback_set)
  also have "\<dots> \<subseteq> set (fold observer_callback calls (observer_callback es vs))"
    by (rule Cons.IH)
  finally show ?case by simp
qed

text \<open>
  Claim C10. One invocation of the observer callback turns the set of visible sections
  into its union with the sections of the intersecting entries, so nothing is removed;
  and over any sequence of invocations a section that is visible stays visible, so
  \<^verbatim>\<open>visibleSections.has\<close> keeps answering true for it.
\<close>

theorem visibleSections_monotone:
  "set vs \<subseteq> set (observer_callback es vs)
   \<and> set (observer_callback es vs) =
       set vs \<union> dataset_section ` {e \<in> set es. isIntersecting e}
   \<and> (has vs x \<longrightarrow> has (observer_run calls vs) x)"
  using observer_run_mono [of vs calls] by (auto simp: observer_callback_set has_def)

theorem visibleSections_monotone_witness:
  "has [''hero''] ''hero''
   \<and> has (observer_run [sample_entries, []] [''hero'']) ''hero''
   \<and> observer_callback sample_entries [''hero''] = [''hero'', ''features'']"
proof -
  have v: "has [''hero''] ''hero''"
    by (simp add: has_def)
  have c: "observer_callback sample_entries [''hero''] = [''hero'', ''features'']"
    by (simp add: observer_callback_def sample_entries_def set_add_def)
  show ?thesis
    using v c visibleSections_monotone [of "[''hero'']" sample_entries "''hero''"
        "[sample_entries, []]"]
    by blast
qed

end
